theory Spec2Isabelle
  imports Main
begin

section \<open>The registry updater of dragon-registry (scripts/update\_registry.go)\<close>

text \<open>
  The program reads \<^verbatim>\<open>registry.json\<close>, asks the release API for the assets of one tag,
  derives one catalog entry per \<^verbatim>\<open>.zip\<close> asset (from the asset's manifest, with fallbacks)
  and merges each entry into the catalog by name. Go strings are byte sequences and are
  modelled as \<open>string\<close>; a Go slice is a list together with the information whether it
  is \<^verbatim>\<open>nil\<close>, because \<^verbatim>\<open>encoding/json\<close> tells the two apart.
\<close>

subsection \<open>Go values\<close>

datatype 'a slice = NilSlice | Slice "'a list"

fun elems :: "'a slice \<Rightarrow> 'a list" where
  "elems NilSlice = []"
| "elems (Slice xs) = xs"

text \<open>\<^verbatim>\<open>strings.HasSuffix\<close>, \<^verbatim>\<open>strings.TrimSuffix\<close>, \<^verbatim>\<open>strings.HasPrefix\<close> and
  \<^verbatim>\<open>strings.TrimPrefix\<close>, as the standard library defines them on byte strings.\<close>

definition strings_HasSuffix :: "string \<Rightarrow> string \<Rightarrow> bool" where
  "strings_HasSuffix s suffix =
     (length s \<ge> length suffix \<and> drop (length s - length suffix) s = suffix)"

definition strings_TrimSuffix :: "string \<Rightarrow> string \<Rightarrow> string" where
  "strings_TrimSuffix s suffix =
     (if strings_HasSuffix s suffix then take (length s - length suffix) s else s)"

definition strings_HasPrefix :: "string \<Rightarrow> string \<Rightarrow> bool" where
  "strings_HasPrefix s prefix =
     (length s \<ge> length prefix \<and> take (length prefix) s = prefix)"

definition strings_TrimPrefix :: "string \<Rightarrow> string \<Rightarrow> string" where
  "strings_TrimPrefix s prefix =
     (if strings_HasPrefix s prefix then drop (length prefix) s else s)"

subsection \<open>Data model\<close>

text \<open>\<^verbatim>\<open>bpManifest\<close> and the anonymous asset struct of \<^verbatim>\<open>ghRelease\<close> have fields called
  \<^verbatim>\<open>Name\<close> too; their selectors carry a prefix here, \<^verbatim>\<open>Blueprint\<close> keeps the plain names.\<close>

record bpManifest =
  man_Name :: string
  man_Version :: string
  man_Description :: string
  man_Tags :: "string slice"

record ghAsset =
  asset_Name :: string
  BrowserDownloadURL :: string

record ghRelease =
  TagName :: string
  Assets :: "ghAsset slice"

record Blueprint =
  Name :: string
  Version :: string
  Repo :: string
  Path :: string
  DownloadURL :: string
  Description :: string
  Tags :: "string slice"

record Database =
  Blueprints :: "Blueprint slice"

text \<open>The zero value of \<^verbatim>\<open>bpManifest\<close> (\<^verbatim>\<open>var man bpManifest\<close>).\<close>

definition zero_bpManifest :: bpManifest where
  "zero_bpManifest =
     \<lparr>man_Name = [], man_Version = [], man_Description = [], man_Tags = NilSlice\<rparr>"

definition zero_Database :: Database where
  "zero_Database = \<lparr>Blueprints = NilSlice\<rparr>"

subsection \<open>Upsert (the inner loop of \<^verbatim>\<open>main\<close>)\<close>

text \<open>
  \<^verbatim>\<open>for i := range db.Blueprints { if db.Blueprints[i].Name == entry.Name {
     db.Blueprints[i] = entry; found = true; break } }\<close>
  The loop state is the index; the result is the slice's contents and \<^verbatim>\<open>found\<close>.
\<close>

function upsert_loop :: "Blueprint list \<Rightarrow> Blueprint \<Rightarrow> nat \<Rightarrow> Blueprint list \<times> bool" where
  "upsert_loop bs entry i =
     (if i < length bs then
        (if Name (bs ! i) = Name entry then (bs[i := entry], True)
         else upsert_loop bs entry (Suc i))
      else (bs, False))"
  by pat_completeness auto
termination
  by (relation "measure (\<lambda>(bs, entry, i). length bs - i)") auto

declare upsert_loop.simps [simp del]

text \<open>\<^verbatim>\<open>if !found { db.Blueprints = append(db.Blueprints, entry) }\<close>\<close>

definition upsert :: "Blueprint list \<Rightarrow> Blueprint \<Rightarrow> Blueprint list" where
  "upsert bs entry =
     (case upsert_loop bs entry 0 of
        (bs', found) \<Rightarrow> if \<not> found then bs' @ [entry] else bs')"

subsection \<open>The standard library's \<^verbatim>\<open>path\<close> package\<close>

text \<open>
  \<^verbatim>\<open>path.Join\<close> and \<^verbatim>\<open>path.Clean\<close> belong to Go's standard library, not to this
  repository. They are written out here after the library's documented rules: Join puts
  a slash between the elements (skipping leading empty ones) and cleans the result; Clean
  collapses repeated slashes, drops \<^verbatim>\<open>.\<close> elements, lets a \<^verbatim>\<open>..\<close> element remove the
  element before it (or drops it at the root), and turns the empty path into \<^verbatim>\<open>.\<close>.
\<close>

fun splitOn :: "char \<Rightarrow> string \<Rightarrow> string list" where
  "splitOn c [] = [[]]"
| "splitOn c (x # xs) =
     (if x = c then [] # splitOn c xs
      else (case splitOn c xs of [] \<Rightarrow> [[x]] | w # ws \<Rightarrow> (x # w) # ws))"

fun joinWith :: "string \<Rightarrow> string list \<Rightarrow> string" where
  "joinWith sep [] = []"
| "joinWith sep [x] = x"
| "joinWith sep (x # y # ys) = x @ sep @ joinWith sep (y # ys)"

text \<open>One path element against the elements kept so far (most recent first).\<close>

definition clean_step :: "bool \<Rightarrow> string list \<Rightarrow> string \<Rightarrow> string list" where
  "clean_step rooted out c =
     (if c = [] \<or> c = ''.'' then out
      else if c = ''..'' then
        (case out of
           [] \<Rightarrow> if rooted then [] else [c]
         | t # ts \<Rightarrow> if t \<noteq> ''..'' then ts else if rooted then out else c # out)
      else c # out)"

definition path_Clean :: "string \<Rightarrow> string" where
  "path_Clean p =
     (if p = [] then ''.''
      else
        let rooted = (hd p = CHR ''/'');
            out = rev (foldl (clean_step rooted) [] (splitOn CHR ''/'' p));
            s = (if rooted then ''/'' else []) @ joinWith ''/'' out
        in if s = [] then ''.'' else s)"

fun join_buf :: "string \<Rightarrow> string list \<Rightarrow> string" where
  "join_buf buf [] = buf"
| "join_buf buf (e # es) =
     join_buf
       (if buf \<noteq> [] \<or> e \<noteq> [] then (if buf \<noteq> [] then buf @ ''/'' else buf) @ e else buf)
       es"

definition path_Join :: "string list \<Rightarrow> string" where
  "path_Join elem =
     (if sum_list (map length elem) = 0 then [] else path_Clean (join_buf [] elem))"

subsection \<open>JSON documents\<close>

text \<open>
  The document \<^verbatim>\<open>json.MarshalIndent\<close> produces, as a tree. The member names and their
  order are the struct tags of \<^verbatim>\<open>Blueprint\<close> and \<^verbatim>\<open>Database\<close>; none has
  \<^verbatim>\<open>omitempty\<close>. By the rule of \<^verbatim>\<open>encoding/json\<close> a nil slice is encoded as
  \<^verbatim>\<open>null\<close> and any other slice as an array, and a string is written as valid UTF-8:
  every byte that does not start a well-formed sequence becomes U+FFFD. The layout of
  the text (two-space indentation, escape sequences) is not modelled, and marshalling
  these types cannot fail.
\<close>

datatype json = JNull | JString string | JArray "json list" | JObject "(string \<times> json) list"

text \<open>
  The length of the well-formed UTF-8 sequence at the head of the bytes, \<open>0\<close> when there
  is none, as \<^verbatim>\<open>utf8.DecodeRuneInString\<close> decides it: no overlong forms, no surrogates,
  nothing above U+10FFFF, no truncated sequence.
\<close>

definition is_cont :: "nat \<Rightarrow> bool" where
  "is_cont b = (0x80 \<le> b \<and> b \<le> 0xBF)"

fun utf8_len :: "nat list \<Rightarrow> nat" where
  "utf8_len [] = 0"
| "utf8_len (b0 # bs) =
     (if b0 < 0x80 then 1
      else if 0xC2 \<le> b0 \<and> b0 \<le> 0xDF then
        (case bs of b1 # _ \<Rightarrow> if is_cont b1 then 2 else 0 | _ \<Rightarrow> 0)
      else if 0xE0 \<le> b0 \<and> b0 \<le> 0xEF then
        (case bs of
           b1 # b2 # _ \<Rightarrow>
             if (if b0 = 0xE0 then 0xA0 else 0x80) \<le> b1 \<and>
                b1 \<le> (if b0 = 0xED then 0x9F else 0xBF) \<and> is_cont b2
             then 3 else 0
         | _ \<Rightarrow> 0)
      else if 0xF0 \<le> b0 \<and> b0 \<le> 0xF4 then
        (case bs of
           b1 # b2 # b3 # _ \<Rightarrow>
             if (if b0 = 0xF0 then 0x90 else 0x80) \<le> b1 \<and>
                b1 \<le> (if b0 = 0xF4 then 0x8F else 0xBF) \<and> is_cont b2 \<and> is_cont b3
             then 4 else 0
         | _ \<Rightarrow> 0)
      else 0)"

text \<open>
  The string the encoder writes. The first argument counts the bytes still to copy of a
  sequence already accepted; a byte that starts no sequence is replaced by the three
  bytes of U+FFFD and the scan goes on at the next byte.
\<close>

fun coerce_from :: "nat \<Rightarrow> string \<Rightarrow> string" where
  "coerce_from k [] = []"
| "coerce_from (Suc k) (c # cs) = c # coerce_from k cs"
| "coerce_from 0 (c # cs) =
     (case utf8_len (map of_char (c # cs)) of
        0 \<Rightarrow> [CHR 0xEF, CHR 0xBF, CHR 0xBD] @ coerce_from 0 cs
      | Suc n \<Rightarrow> c # coerce_from n cs)"

definition json_valid_utf8 :: "string \<Rightarrow> string" where
  "json_valid_utf8 s = coerce_from 0 s"

definition json_String :: "string \<Rightarrow> json" where
  "json_String s = JString (json_valid_utf8 s)"

fun json_strings :: "string slice \<Rightarrow> json" where
  "json_strings NilSlice = JNull"
| "json_strings (Slice xs) = JArray (map json_String xs)"

definition json_Blueprint :: "Blueprint \<Rightarrow> json" where
  "json_Blueprint b =
     JObject [(''name'', json_String (Name b)), (''version'', json_String (Version b)),
              (''repo'', json_String (Repo b)), (''path'', json_String (Path b)),
              (''download_url'', json_String (DownloadURL b)),
              (''description'', json_String (Description b)),
              (''tags'', json_strings (Tags b))]"

fun json_Blueprints :: "Blueprint slice \<Rightarrow> json" where
  "json_Blueprints NilSlice = JNull"
| "json_Blueprints (Slice bs) = JArray (map json_Blueprint bs)"

definition json_Marshal_Database :: "Database \<Rightarrow> json" where
  "json_Marshal_Database db = JObject [(''blueprints'', json_Blueprints (Blueprints db))]"

subsection \<open>The outside world\<close>

text \<open>
  The environment, the file system, the HTTP client and the decoders of
  \<^verbatim>\<open>encoding/json\<close> and \<^verbatim>\<open>yaml/v3\<close> are not code of this repository: they are fields
  of a \<open>world\<close> that every operation receives. A decoder is given the bytes and the value
  its target holds before the call, and answers with its error (if any) and the value the
  target holds afterwards. \<^verbatim>\<open>os.WriteFile\<close> receives the path and the document.
  \<open>url_parses\<close> says which strings \<^verbatim>\<open>net/url\<close> accepts: \<^verbatim>\<open>http.NewRequestWithContext\<close>,
  called with the method \<^verbatim>\<open>GET\<close> and a context that is not nil, fails exactly on the others.
\<close>

text \<open>A call either returns or ends the process in a run-time panic.\<close>

datatype 'a outcome = Panic | Return 'a

datatype os_error = ErrNotExist | ErrPermission | ErrIO

datatype json_error = JsonSyntaxError | JsonTypeError

datatype yaml_error = YamlSyntaxError | YamlTypeError

record http_request =
  req_Method :: string
  req_URL :: string
  req_Authorization :: "string option"
  req_Accept :: string

text \<open>What \<^verbatim>\<open>http.DefaultClient.Do\<close> gives: a transport error, or a response with its
  status code, its body, and whether reading the body fails.\<close>

datatype http_reply = TransportError | Reply nat string bool

datatype http_error = ErrDo | ErrStatus string nat string | ErrReadBody

record world =
  env_TAG :: string
  env_BLUEPRINTS_REPO :: string
  env_GITHUB_TOKEN :: string
  os_ReadFile :: "string \<Rightarrow> os_error + string"
  os_WriteFile :: "string \<Rightarrow> json \<Rightarrow> os_error option"
  url_parses :: "string \<Rightarrow> bool"
  client_Do :: "http_request \<Rightarrow> http_reply"
  json_Unmarshal_Database :: "string \<Rightarrow> Database \<Rightarrow> json_error option \<times> Database"
  json_Unmarshal_ghRelease :: "string \<Rightarrow> ghRelease \<Rightarrow> json_error option \<times> ghRelease"
  yaml_Unmarshal :: "string \<Rightarrow> bpManifest \<Rightarrow> yaml_error option \<times> bpManifest"

subsection \<open>\<^verbatim>\<open>loadDB\<close>\<close>

datatype load_error = ReadError os_error | DecodeError json_error

text \<open>As in Go, the result is the pair of the database and the error (\<open>None\<close> is \<^verbatim>\<open>nil\<close>).\<close>

definition loadDB :: "world \<Rightarrow> string \<Rightarrow> Database \<times> load_error option" where
  "loadDB w p =
     (case os_ReadFile w p of
        Inl err \<Rightarrow>
          if err = ErrNotExist then (\<lparr>Blueprints = Slice []\<rparr>, None)
          else (zero_Database, Some (ReadError err))
      | Inr b \<Rightarrow>
          (case json_Unmarshal_Database w b zero_Database of
             (Some err, db) \<Rightarrow> (db, Some (DecodeError err))
           | (None, db) \<Rightarrow>
               (if Blueprints db = NilSlice then db\<lparr>Blueprints := Slice []\<rparr> else db, None)))"

subsection \<open>\<^verbatim>\<open>saveDB\<close>\<close>

definition saveDB :: "world \<Rightarrow> string \<Rightarrow> Database \<Rightarrow> os_error option" where
  "saveDB w p db =
     (let db = (if Blueprints db = NilSlice then db\<lparr>Blueprints := Slice []\<rparr> else db);
          b = json_Marshal_Database db
      in os_WriteFile w p b)"

subsection \<open>\<^verbatim>\<open>httpGet\<close>\<close>

text \<open>
  \<^verbatim>\<open>req, _ := http.NewRequestWithContext(ctx, "GET", url, nil)\<close> drops the error. When
  the URL does not parse, \<^verbatim>\<open>req\<close> is nil and the first \<^verbatim>\<open>req.Header.Set\<close> dereferences
  it: the process panics before any request is sent.
\<close>

definition httpGet :: "world \<Rightarrow> string \<Rightarrow> (http_error + string) outcome" where
  "httpGet w url =
     (if \<not> url_parses w url then Panic
      else
        let req = \<lparr>req_Method = ''GET'', req_URL = url,
                   req_Authorization =
                     (if env_GITHUB_TOKEN w \<noteq> [] then Some (''Bearer '' @ env_GITHUB_TOKEN w)
                      else None),
                   req_Accept = ''application/vnd.github+json''\<rparr>
        in case client_Do w req of
             TransportError \<Rightarrow> Return (Inl ErrDo)
           | Reply status body read_fails \<Rightarrow>
               if status div 100 \<noteq> 2 then Return (Inl (ErrStatus url status body))
               else if read_fails then Return (Inl ErrReadBody)
               else Return (Inr body))"

subsection \<open>The body of the asset loop of \<^verbatim>\<open>main\<close>\<close>

text \<open>Line 138: \<^verbatim>\<open>name := strings.TrimSuffix(a.Name, ".zip")\<close>.\<close>

definition blueprintID :: "ghAsset \<Rightarrow> string" where
  "blueprintID a = strings_TrimSuffix (asset_Name a) ''.zip''"

text \<open>Lines 140-141: the format has four \<^verbatim>\<open>%s\<close>, the last one filled with the empty
  string.\<close>

definition manifestURL :: "string \<Rightarrow> string \<Rightarrow> string \<Rightarrow> string" where
  "manifestURL repo tag name =
     ''https://raw.githubusercontent.com/'' @ repo @ ''/'' @ tag @ ''/'' @
     path_Join [''blueprints'', name, ''manifest.yaml''] @ ''/'' @ []"

text \<open>Lines 142-146: the error of \<^verbatim>\<open>yaml.Unmarshal\<close> is discarded, \<^verbatim>\<open>man\<close> is kept.\<close>

definition resolveManifest :: "world \<Rightarrow> string \<Rightarrow> string \<Rightarrow> string \<Rightarrow> bpManifest outcome" where
  "resolveManifest w repo tag name =
     (case httpGet w (manifestURL repo tag name) of
        Panic \<Rightarrow> Panic
      | Return (Inl err) \<Rightarrow> Return zero_bpManifest
      | Return (Inr mb) \<Rightarrow> Return (snd (yaml_Unmarshal w mb zero_bpManifest)))"

text \<open>Lines 147-156.\<close>

definition applyFallbacks :: "bpManifest \<Rightarrow> string \<Rightarrow> string \<Rightarrow> bpManifest" where
  "applyFallbacks man name tag =
     (let man = (if man_Name man = [] then man\<lparr>man_Name := name\<rparr> else man);
          man = (if man_Version man = [] then man\<lparr>man_Version := strings_TrimPrefix tag ''v''\<rparr>
                 else man);
          man = (if man_Description man = [] then man\<lparr>man_Description := name @ '' blueprint''\<rparr>
                 else man)
      in man)"

text \<open>Lines 158-166.\<close>

definition buildEntry :: "string \<Rightarrow> string \<Rightarrow> ghAsset \<Rightarrow> bpManifest \<Rightarrow> Blueprint" where
  "buildEntry repo name a man =
     \<lparr>Name = man_Name man,
      Version = man_Version man,
      Repo = ''github.com/'' @ repo,
      Path = path_Join [''blueprints'', name],
      DownloadURL = BrowserDownloadURL a,
      Description = man_Description man,
      Tags = man_Tags man\<rparr>"

text \<open>Lines 135-166: the entry an asset gives, \<open>None\<close> when the loop says \<^verbatim>\<open>continue\<close>.\<close>

definition assetEntry :: "world \<Rightarrow> string \<Rightarrow> string \<Rightarrow> ghAsset \<Rightarrow> Blueprint option outcome" where
  "assetEntry w repo tag a =
     (if \<not> strings_HasSuffix (asset_Name a) ''.zip'' then Return None
      else
        let name = blueprintID a in
        case resolveManifest w repo tag name of
          Panic \<Rightarrow> Panic
        | Return man \<Rightarrow>
            (let man = applyFallbacks man name tag
             in Return (Some (buildEntry repo name a man))))"

text \<open>One iteration, and the whole loop over \<^verbatim>\<open>rel.Assets\<close>.\<close>

definition processAsset :: "world \<Rightarrow> string \<Rightarrow> string \<Rightarrow> Database \<Rightarrow> ghAsset \<Rightarrow> Database outcome" where
  "processAsset w repo tag db a =
     (case assetEntry w repo tag a of
        Panic \<Rightarrow> Panic
      | Return None \<Rightarrow> Return db
      | Return (Some entry) \<Rightarrow>
          Return (db\<lparr>Blueprints := Slice (upsert (elems (Blueprints db)) entry)\<rparr>))"

fun reconcile :: "world \<Rightarrow> string \<Rightarrow> string \<Rightarrow> Database \<Rightarrow> ghAsset list \<Rightarrow> Database outcome" where
  "reconcile w repo tag db [] = Return db"
| "reconcile w repo tag db (a # assets) =
     (case processAsset w repo tag db a of
        Panic \<Rightarrow> Panic
      | Return db' \<Rightarrow> reconcile w repo tag db' assets)"

subsection \<open>\<^verbatim>\<open>main\<close>\<close>

datatype fatal =
    MissingEnv
  | LoadRegistry load_error
  | ReleaseError http_error
  | DecodeRelease json_error
  | SaveRegistry os_error

definition zero_ghRelease :: ghRelease where
  "zero_ghRelease = \<lparr>TagName = [], Assets = NilSlice\<rparr>"

definition releaseURL :: "string \<Rightarrow> string \<Rightarrow> string" where
  "releaseURL repo tag = ''https://api.github.com/repos/'' @ repo @ ''/releases/tags/'' @ tag"

text \<open>When the run does not panic, the result is the fatal error that ends it with
  status 1, or the database that was saved.\<close>

definition main :: "world \<Rightarrow> (fatal + Database) outcome" where
  "main w =
     (let tag = env_TAG w; repo = env_BLUEPRINTS_REPO w in
      if tag = [] \<or> repo = [] then Return (Inl MissingEnv)
      else
        case loadDB w ''registry.json'' of
          (db, Some err) \<Rightarrow> Return (Inl (LoadRegistry err))
        | (db, None) \<Rightarrow>
            (case httpGet w (releaseURL repo tag) of
               Panic \<Rightarrow> Panic
             | Return (Inl err) \<Rightarrow> Return (Inl (ReleaseError err))
             | Return (Inr rb) \<Rightarrow>
                 (case json_Unmarshal_ghRelease w rb zero_ghRelease of
                    (Some err, rel) \<Rightarrow> Return (Inl (DecodeRelease err))
                  | (None, rel) \<Rightarrow>
                      (case reconcile w repo tag db (elems (Assets rel)) of
                         Panic \<Rightarrow> Panic
                       | Return db \<Rightarrow>
                           (case saveDB w ''registry.json'' db of
                              Some err \<Rightarrow> Return (Inl (SaveRegistry err))
                            | None \<Rightarrow> Return (Inr db))))))"

subsection \<open>Sample values\<close>

text \<open>An entry with the given name and version and every other field empty.\<close>

definition bp :: "string \<Rightarrow> string \<Rightarrow> Blueprint" where
  "bp n v = \<lparr>Name = n, Version = v, Repo = [], Path = [], DownloadURL = [],
             Description = [], Tags = NilSlice\<rparr>"

text \<open>A release with one package archive and one other asset.\<close>

definition sample_assets :: "ghAsset list" where
  "sample_assets =
     [\<lparr>asset_Name = ''foo.zip'', BrowserDownloadURL = ''U1''\<rparr>,
      \<lparr>asset_Name = ''foo.tar'', BrowserDownloadURL = ''U2''\<rparr>]"

text \<open>A world with no registry file, where the release lookup succeeds and every other
  request is answered 404.\<close>

definition sample_world :: world where
  "sample_world =
     \<lparr>env_TAG = ''v1.2.3'',
      env_BLUEPRINTS_REPO = ''o/r'',
      env_GITHUB_TOKEN = [],
      os_ReadFile = (\<lambda>p. Inl ErrNotExist),
      os_WriteFile = (\<lambda>p doc. None),
      url_parses = (\<lambda>url. True),
      client_Do = (\<lambda>req. if req_URL req = releaseURL ''o/r'' ''v1.2.3''
                          then Reply 200 ''{}'' False else Reply 404 ''Not Found'' False),
      json_Unmarshal_Database = (\<lambda>b db. (None, db)),
      json_Unmarshal_ghRelease = (\<lambda>b rel. (None, rel\<lparr>Assets := Slice sample_assets\<rparr>)),
      yaml_Unmarshal = (\<lambda>b man. (None, man))\<rparr>"

text \<open>A world whose manifest has a name and an ill-typed \<^verbatim>\<open>tags\<close> field. Its decoder
  behaves as \<^verbatim>\<open>yaml.Unmarshal\<close> is documented to on a type mismatch: the fields that fit
  are stored, decoding goes on, and a \<^verbatim>\<open>TypeError\<close> is returned at the end.\<close>

definition typeerr_world :: world where
  "typeerr_world =
     sample_world
       \<lparr>client_Do := (\<lambda>req. Reply 200 ''{name: bar, tags: 7}'' False),
        yaml_Unmarshal := (\<lambda>b man. (Some YamlTypeError, man\<lparr>man_Name := ''bar''\<rparr>))\<rparr>"

text \<open>
  \<^verbatim>\<open>net/url\<close> rejects, among other things, a percent sign that is not followed by two
  hexadecimal digits. \<open>escape_world\<close> is \<open>sample_world\<close> with that check and a release
  whose only asset is called \<^verbatim>\<open>a%zz.zip\<close>.
\<close>

fun percent_escapes_ok :: "string \<Rightarrow> bool" where
  "percent_escapes_ok [] = True"
| "percent_escapes_ok (c # cs) =
     (if c = CHR ''%'' then
        (case cs of
           a # b # rest \<Rightarrow>
             a \<in> set ''0123456789abcdefABCDEF'' \<and> b \<in> set ''0123456789abcdefABCDEF'' \<and>
             percent_escapes_ok rest
         | _ \<Rightarrow> False)
      else percent_escapes_ok cs)"

definition escape_asset :: ghAsset where
  "escape_asset = \<lparr>asset_Name = ''a%zz.zip'', BrowserDownloadURL = ''U1''\<rparr>"

definition escape_world :: world where
  "escape_world =
     sample_world
       \<lparr>url_parses := percent_escapes_ok,
        json_Unmarshal_ghRelease := (\<lambda>b rel. (None, rel\<lparr>Assets := Slice [escape_asset]\<rparr>))\<rparr>"

text \<open>The document expected in the file after reconciling \<open>sample_assets\<close> into an
  empty catalog.\<close>

definition foo_document :: json where
  "foo_document =
     JObject [(''blueprints'', JArray
       [JObject [(''name'', JString ''foo''), (''version'', JString ''1.2.3''),
                 (''repo'', JString ''github.com/o/r''), (''path'', JString ''blueprints/foo''),
                 (''download_url'', JString ''U1''),
                 (''description'', JString ''foo blueprint''),
                 (''tags'', JNull)]])]"

section \<open>Properties of upsert\<close>

lemma upsert_loop_Cons_Suc:
  "upsert_loop (b # bs) entry (Suc i) =
     (case upsert_loop bs entry i of (bs', found) \<Rightarrow> (b # bs', found))"
proof (induction bs entry i rule: upsert_loop.induct)
  case (1 bs entry i)
  show ?case
  proof (cases "i < length bs")
    case False
    then show ?thesis
      by (simp add: upsert_loop.simps [of "b # bs" entry "Suc i"]
          upsert_loop.simps [of bs entry i])
  next
    case True
    show ?thesis
    proof (cases "Name (bs ! i) = Name entry")
      case True
      with \<open>i < length bs\<close> show ?thesis
        by (simp add: upsert_loop.simps [of "b # bs" entry "Suc i"]
            upsert_loop.simps [of bs entry i])
    next
      case False
      with \<open>i < length bs\<close> "1.IH" show ?thesis
        by (simp add: upsert_loop.simps [of "b # bs" entry "Suc i"]
            upsert_loop.simps [of bs entry i])
    qed
  qed
qed

lemma upsert_Nil: "upsert [] entry = [entry]"
  by (simp add: upsert_def upsert_loop.simps [of "[]" entry 0])

lemma upsert_Cons:
  "upsert (b # bs) entry =
     (if Name b = Name entry then entry # bs else b # upsert bs entry)"
  by (simp add: upsert_def upsert_loop.simps [of "b # bs" entry 0] upsert_loop_Cons_Suc
      split: prod.splits)

lemma upsert_absent:
  "Name entry \<notin> Name ` set bs \<Longrightarrow> upsert bs entry = bs @ [entry]"
  by (induction bs) (auto simp: upsert_Nil upsert_Cons)

lemma upsert_first_match:
  "i < length bs \<Longrightarrow> Name (bs ! i) = Name entry \<Longrightarrow>
   \<forall>j<i. Name (bs ! j) \<noteq> Name entry \<Longrightarrow> upsert bs entry = bs[i := entry]"
proof (induction bs arbitrary: i)
  case Nil
  then show ?case by simp
next
  case (Cons b bs)
  show ?case
  proof (cases i)
    case 0
    with Cons.prems show ?thesis by (simp add: upsert_Cons)
  next
    case (Suc k)
    from Cons.prems Suc have "Name b \<noteq> Name entry" by auto
    moreover from Cons.prems Suc have "upsert bs entry = bs[k := entry]"
      by (intro Cons.IH) auto
    ultimately show ?thesis using Suc by (simp add: upsert_Cons)
  qed
qed

lemma length_upsert:
  "length (upsert bs entry) =
     (if Name entry \<in> Name ` set bs then length bs else Suc (length bs))"
  by (induction bs) (auto simp: upsert_Nil upsert_Cons)

lemma map_Name_upsert:
  "map Name (upsert bs entry) =
     (if Name entry \<in> Name ` set bs then map Name bs else map Name bs @ [Name entry])"
  by (induction bs) (auto simp: upsert_Nil upsert_Cons)

lemma count_Name_distinct:
  "distinct (map Name bs) \<Longrightarrow> n \<in> Name ` set bs \<Longrightarrow>
   length (filter (\<lambda>b. Name b = n) bs) = 1"
proof (induction bs)
  case Nil
  then show ?case by simp
next
  case (Cons b bs)
  show ?case
  proof (cases "Name b = n")
    case True
    with Cons.prems have "n \<notin> Name ` set bs" by simp
    then have "filter (\<lambda>b. Name b = n) bs = []"
      unfolding filter_empty_conv by blast
    with True show ?thesis by simp
  next
    case False
    with Cons show ?thesis by auto
  qed
qed

section \<open>Properties of the asset loop\<close>

lemmas eval_defs =
  main_def loadDB_def saveDB_def httpGet_def releaseURL_def processAsset_def
  assetEntry_def strings_HasSuffix_def blueprintID_def strings_TrimSuffix_def
  resolveManifest_def manifestURL_def path_Join_def path_Clean_def clean_step_def
  zero_ghRelease_def zero_bpManifest_def zero_Database_def applyFallbacks_def
  strings_TrimPrefix_def strings_HasPrefix_def buildEntry_def upsert_Nil upsert_Cons Let_def
  json_Marshal_Database_def json_Blueprint_def json_String_def json_valid_utf8_def

lemma httpGet_Panic: "(httpGet w url = Panic) = (\<not> url_parses w url)"
  by (auto simp: httpGet_def Let_def split: http_reply.splits)

lemma resolveManifest_Panic:
  "(resolveManifest w repo tag name = Panic) = (\<not> url_parses w (manifestURL repo tag name))"
  unfolding httpGet_Panic [symmetric]
  by (auto simp: resolveManifest_def split: outcome.splits sum.splits)

lemma resolveManifest_Return:
  "url_parses w (manifestURL repo tag name) \<Longrightarrow> \<exists>man. resolveManifest w repo tag name = Return man"
  using resolveManifest_Panic [of w repo tag name]
  by (cases "resolveManifest w repo tag name") auto

lemma names_upsert: "Name ` set (upsert bs entry) = insert (Name entry) (Name ` set bs)"
proof -
  have "set (map Name (upsert bs entry)) = insert (Name entry) (set (map Name bs))"
    unfolding map_Name_upsert by auto
  then show ?thesis by simp
qed

lemma names_processAsset:
  "processAsset w repo tag db a = Return db' \<Longrightarrow>
   Name ` set (elems (Blueprints db)) \<subseteq> Name ` set (elems (Blueprints db'))"
  by (auto simp: processAsset_def names_upsert split: outcome.splits option.splits)

lemma names_reconcile:
  "reconcile w repo tag db assets = Return db' \<Longrightarrow>
   Name ` set (elems (Blueprints db)) \<subseteq> Name ` set (elems (Blueprints db'))"
proof (induction assets arbitrary: db)
  case Nil
  then show ?case by simp
next
  case (Cons a assets)
  from Cons.prems obtain db1 where
    p: "processAsset w repo tag db a = Return db1" and
    r: "reconcile w repo tag db1 assets = Return db'"
    by (auto split: outcome.splits)
  from names_processAsset [OF p] Cons.IH [OF r] show ?case by blast
qed

lemma reconcile_has_entry:
  "reconcile w repo tag db assets = Return db' \<Longrightarrow> a \<in> set assets \<Longrightarrow>
   assetEntry w repo tag a = Return (Some e) \<Longrightarrow>
   Name e \<in> Name ` set (elems (Blueprints db'))"
proof (induction assets arbitrary: db)
  case Nil
  then show ?case by simp
next
  case (Cons x assets)
  from Cons.prems(1) obtain db1 where
    p: "processAsset w repo tag db x = Return db1" and
    r: "reconcile w repo tag db1 assets = Return db'"
    by (auto split: outcome.splits)
  show ?case
  proof (cases "a = x")
    case True
    with p Cons.prems(3) have "Name e \<in> Name ` set (elems (Blueprints db1))"
      by (auto simp: processAsset_def names_upsert)
    with names_reconcile [OF r] show ?thesis by blast
  next
    case False
    with Cons.prems(2) have "a \<in> set assets" by simp
    from Cons.IH [OF r this Cons.prems(3)] show ?thesis .
  qed
qed

lemma assetEntry_zip:
  "strings_HasSuffix (asset_Name a) ''.zip'' \<Longrightarrow>
   resolveManifest w repo tag (blueprintID a) = Return man \<Longrightarrow>
   assetEntry w repo tag a =
     Return (Some (buildEntry repo (blueprintID a) a (applyFallbacks man (blueprintID a) tag)))"
  by (simp add: assetEntry_def Let_def)

lemma assetEntry_not_zip:
  "\<not> strings_HasSuffix (asset_Name a) ''.zip'' \<Longrightarrow> assetEntry w repo tag a = Return None"
  by (simp add: assetEntry_def)

lemma assetEntry_skip_iff:
  "(assetEntry w repo tag a = Return None) = (\<not> strings_HasSuffix (asset_Name a) ''.zip'')"
  by (auto simp: assetEntry_def Let_def split: outcome.splits)

lemma processAsset_Return:
  "strings_HasSuffix (asset_Name a) ''.zip'' \<longrightarrow> url_parses w (manifestURL repo tag (blueprintID a)) \<Longrightarrow>
   \<exists>db'. processAsset w repo tag db a = Return db'"
proof (cases "strings_HasSuffix (asset_Name a) ''.zip''")
  case False
  then show ?thesis by (simp add: processAsset_def assetEntry_not_zip)
next
  case True
  assume "strings_HasSuffix (asset_Name a) ''.zip'' \<longrightarrow> url_parses w (manifestURL repo tag (blueprintID a))"
  with True obtain man where "resolveManifest w repo tag (blueprintID a) = Return man"
    using resolveManifest_Return by blast
  with True show ?thesis by (simp add: processAsset_def assetEntry_zip)
qed

lemma reconcile_Return:
  "\<forall>a \<in> set assets. strings_HasSuffix (asset_Name a) ''.zip'' \<longrightarrow>
      url_parses w (manifestURL repo tag (blueprintID a)) \<Longrightarrow>
   \<exists>db'. reconcile w repo tag db assets = Return db'"
proof (induction assets arbitrary: db)
  case Nil
  then show ?case by simp
next
  case (Cons a assets)
  then obtain db1 where "processAsset w repo tag db a = Return db1"
    using processAsset_Return [of a w repo tag db] by auto
  moreover from Cons obtain db' where "reconcile w repo tag db1 assets = Return db'"
    by fastforce
  ultimately show ?case by simp
qed

lemma main_succeeds:
  assumes "env_TAG w \<noteq> []" "env_BLUEPRINTS_REPO w \<noteq> []"
    and "snd (loadDB w ''registry.json'') = None"
    and "httpGet w (releaseURL (env_BLUEPRINTS_REPO w) (env_TAG w)) = Return (Inr rb)"
    and "fst (json_Unmarshal_ghRelease w rb zero_ghRelease) = None"
    and "\<forall>a \<in> set (elems (Assets (snd (json_Unmarshal_ghRelease w rb zero_ghRelease)))).
           strings_HasSuffix (asset_Name a) ''.zip'' \<longrightarrow>
           url_parses w (manifestURL (env_BLUEPRINTS_REPO w) (env_TAG w) (blueprintID a))"
    and "\<And>doc. os_WriteFile w ''registry.json'' doc = None"
  shows "\<exists>saved. main w = Return (Inr saved)"
proof -
  obtain db where l: "loadDB w ''registry.json'' = (db, None)"
    using assms(3) by (cases "loadDB w ''registry.json''") auto
  obtain rel where r: "json_Unmarshal_ghRelease w rb zero_ghRelease = (None, rel)"
    using assms(5) by (cases "json_Unmarshal_ghRelease w rb zero_ghRelease") auto
  from assms(6) r obtain db' where
    c: "reconcile w (env_BLUEPRINTS_REPO w) (env_TAG w) db (elems (Assets rel)) = Return db'"
    using reconcile_Return [of "elems (Assets rel)" w "env_BLUEPRINTS_REPO w" "env_TAG w" db]
    by auto
  have s: "saveDB w ''registry.json'' d = None" for d
    by (simp add: saveDB_def Let_def assms(7))
  show ?thesis
    using assms(1,2,4) by (simp add: main_def Let_def l r c s)
qed

lemma trim_zip: "strings_HasSuffix s suffix \<Longrightarrow> strings_TrimSuffix s suffix @ suffix = s"
proof -
  assume h: "strings_HasSuffix s suffix"
  then have "drop (length s - length suffix) s = suffix"
    by (simp add: strings_HasSuffix_def)
  then have "take (length s - length suffix) s @ suffix = s"
    by (metis append_take_drop_id)
  with h show ?thesis by (simp add: strings_TrimSuffix_def)
qed

section \<open>The claims about upsert\<close>

text \<open>
  C1. For every catalog \<open>C\<close> and every entry \<open>E\<close> such that no entry of \<open>C\<close> has the name
  of \<open>E\<close>, upsert appends \<open>E\<close> as the new last element: the result is one longer than
  \<open>C\<close>, its last element is \<open>E\<close>, and every entry of \<open>C\<close> keeps its position and value.
\<close>

theorem upsert_appends_absent_name:
  assumes "\<forall>b \<in> set C. Name b \<noteq> Name E"
  shows "length (upsert C E) = length C + 1 \<and> last (upsert C E) = E \<and>
         (\<forall>i < length C. upsert C E ! i = C ! i)"
proof -
  from assms have "Name E \<notin> Name ` set C" by auto
  then have "upsert C E = C @ [E]" by (rule upsert_absent)
  then show ?thesis by (simp add: nth_append)
qed

theorem upsert_appends_absent_name_witness:
  "length (upsert [bp ''alpha'' ''0.9''] (bp ''beta'' ''1.0'')) = 2 \<and>
   last (upsert [bp ''alpha'' ''0.9''] (bp ''beta'' ''1.0'')) = bp ''beta'' ''1.0'' \<and>
   upsert [bp ''alpha'' ''0.9''] (bp ''beta'' ''1.0'') ! 0 = bp ''alpha'' ''0.9''"
  using upsert_appends_absent_name [of "[bp ''alpha'' ''0.9'']" "bp ''beta'' ''1.0''"]
  by (simp add: bp_def)

text \<open>
  C2. For every catalog \<open>C\<close> (at most one entry per name, the invariant of the data model)
  that holds an entry with the name of \<open>E\<close> at position \<open>i\<close>, upsert yields a catalog of the
  same length in which position \<open>i\<close> holds exactly \<open>E\<close>, every field replaced, tags
  included, and every other position is unchanged.
\<close>

theorem upsert_replaces_match:
  assumes "distinct (map Name C)" and "i < length C" and "Name (C ! i) = Name E"
  shows "length (upsert C E) = length C \<and> upsert C E ! i = E \<and>
         (\<forall>j < length C. j \<noteq> i \<longrightarrow> upsert C E ! j = C ! j)"
proof -
  have first: "\<forall>j<i. Name (C ! j) \<noteq> Name E"
  proof (intro allI impI)
    fix j assume "j < i"
    with assms(2) have lj: "j < length (map Name C)" and li: "i < length (map Name C)"
      and ne: "j \<noteq> i"
      by simp_all
    from nth_eq_iff_index_eq [OF assms(1) lj li] ne
    have "map Name C ! j \<noteq> map Name C ! i" by blast
    with \<open>j < i\<close> assms(2,3) show "Name (C ! j) \<noteq> Name E" by simp
  qed
  from assms(2,3) first have "upsert C E = C[i := E]" by (rule upsert_first_match)
  with assms(2) show ?thesis by simp
qed

theorem upsert_replaces_match_witness:
  "length (upsert [bp ''a'' ''1'', bp ''x'' ''1'', bp ''b'' ''2'']
            ((bp ''x'' ''3'')\<lparr>Tags := Slice [''t'']\<rparr>)) = 3 \<and>
   upsert [bp ''a'' ''1'', bp ''x'' ''1'', bp ''b'' ''2'']
     ((bp ''x'' ''3'')\<lparr>Tags := Slice [''t'']\<rparr>) ! 1 = (bp ''x'' ''3'')\<lparr>Tags := Slice [''t'']\<rparr> \<and>
   upsert [bp ''a'' ''1'', bp ''x'' ''1'', bp ''b'' ''2'']
     ((bp ''x'' ''3'')\<lparr>Tags := Slice [''t'']\<rparr>) ! 0 = bp ''a'' ''1'' \<and>
   upsert [bp ''a'' ''1'', bp ''x'' ''1'', bp ''b'' ''2'']
     ((bp ''x'' ''3'')\<lparr>Tags := Slice [''t'']\<rparr>) ! 2 = bp ''b'' ''2''"
  using upsert_replaces_match
    [of "[bp ''a'' ''1'', bp ''x'' ''1'', bp ''b'' ''2'']" 1
        "(bp ''x'' ''3'')\<lparr>Tags := Slice [''t'']\<rparr>"]
  by (simp add: bp_def)

text \<open>
  C3. Upsert is idempotent: for every catalog \<open>C\<close> and entry \<open>E\<close>, applying \<open>E\<close> twice
  gives the same catalog as applying it once.
\<close>

theorem upsert_idempotent: "upsert (upsert C E) E = upsert C E"
  by (induction C) (simp_all add: upsert_Nil upsert_Cons)

theorem upsert_idempotent_witness:
  "upsert (upsert [bp ''alpha'' ''0.9''] (bp ''beta'' ''1.0'')) (bp ''beta'' ''1.0'') =
   [bp ''alpha'' ''0.9'', bp ''beta'' ''1.0'']"
  using upsert_idempotent [of "[bp ''alpha'' ''0.9'']" "bp ''beta'' ''1.0''"]
  by (simp add: upsert_Cons upsert_Nil bp_def)

text \<open>
  C4. Name uniqueness is an invariant: when at most one entry of \<open>C\<close> carries any given
  name, the same holds of \<open>upsert C E\<close> for every entry \<open>E\<close>; in particular the result
  has exactly one entry with the name of \<open>E\<close>, never a second one.
\<close>

theorem upsert_keeps_names_unique:
  assumes "distinct (map Name C)"
  shows "distinct (map Name (upsert C E)) \<and>
         length (filter (\<lambda>b. Name b = Name E) (upsert C E)) = 1"
proof -
  from assms have d: "distinct (map Name (upsert C E))"
    by (auto simp: map_Name_upsert)
  have "Name E \<in> set (map Name (upsert C E))"
    by (simp add: map_Name_upsert)
  then have "Name E \<in> Name ` set (upsert C E)" by simp
  with d have "length (filter (\<lambda>b. Name b = Name E) (upsert C E)) = 1"
    by (rule count_Name_distinct)
  with d show ?thesis by simp
qed

theorem upsert_keeps_names_unique_witness:
  "distinct (map Name (upsert [bp ''alpha'' ''0.9'', bp ''beta'' ''1.0''] (bp ''alpha'' ''1.2.3''))) \<and>
   length (filter (\<lambda>b. Name b = Name (bp ''alpha'' ''1.2.3''))
     (upsert [bp ''alpha'' ''0.9'', bp ''beta'' ''1.0''] (bp ''alpha'' ''1.2.3''))) = 1"
  using upsert_keeps_names_unique
    [of "[bp ''alpha'' ''0.9'', bp ''beta'' ''1.0'']" "bp ''alpha'' ''1.2.3''"]
  by (simp add: bp_def)

section \<open>The claims about manifests, assets and the store\<close>

text \<open>
  C5, as stated: every failure to obtain or parse the manifest gives exactly the empty
  manifest. It fails for a parse error after which the decoder has stored fields:
  \<^verbatim>\<open>main\<close> discards the error of \<^verbatim>\<open>yaml.Unmarshal\<close> and keeps \<^verbatim>\<open>man\<close> as it is. In
  \<open>typeerr_world\<close> the fetch succeeds, the decoder reports a type error, and the
  manifest used has the name \<^verbatim>\<open>bar\<close>.
\<close>

theorem parse_error_partial_manifest_counterexample:
  "httpGet typeerr_world (manifestURL ''o/r'' ''v1.2.3'' ''foo'') =
     Return (Inr ''{name: bar, tags: 7}'') \<and>
   fst (yaml_Unmarshal typeerr_world ''{name: bar, tags: 7}'' zero_bpManifest) = Some YamlTypeError \<and>
   resolveManifest typeerr_world ''o/r'' ''v1.2.3'' ''foo'' \<noteq> Return zero_bpManifest \<and>
   resolveManifest typeerr_world ''o/r'' ''v1.2.3'' ''foo'' =
     Return \<lparr>man_Name = ''bar'', man_Version = [], man_Description = [], man_Tags = NilSlice\<rparr>"
  by (simp add: typeerr_world_def sample_world_def resolveManifest_def httpGet_def zero_bpManifest_def)

text \<open>
  C5, amended. For manifest URLs that \<^verbatim>\<open>net/url\<close> accepts, manifest resolution never fails
  the run. A fetch error or a missing document gives exactly the empty manifest; after a
  successful fetch the manifest is what the decoder left in it, whether or not it reported
  an error. In every case each asset of the list whose name ends in \<^verbatim>\<open>.zip\<close> gets its
  entry from that manifest and the fallbacks, the loop runs to its end, and the name of
  that entry is in the reconciled catalog, whatever happened to the manifests of the
  other assets. When the configuration, the load, the release lookup, its decoding and
  the write succeed, \<^verbatim>\<open>main\<close> ends with the saved catalog.
\<close>

theorem manifest_failure_not_fatal:
  "(\<forall>err. httpGet w (manifestURL repo tag name) = Return (Inl err) \<longrightarrow>
      resolveManifest w repo tag name = Return zero_bpManifest) \<and>
   (\<forall>mb. httpGet w (manifestURL repo tag name) = Return (Inr mb) \<longrightarrow>
      resolveManifest w repo tag name = Return (snd (yaml_Unmarshal w mb zero_bpManifest))) \<and>
   (url_parses w (manifestURL repo tag name) \<longrightarrow>
      (\<exists>man. resolveManifest w repo tag name = Return man)) \<and>
   ((\<forall>a \<in> set assets. strings_HasSuffix (asset_Name a) ''.zip'' \<longrightarrow>
        url_parses w (manifestURL repo tag (blueprintID a))) \<longrightarrow>
    (\<exists>db'. reconcile w repo tag db assets = Return db' \<and>
       (\<forall>a \<in> set assets. strings_HasSuffix (asset_Name a) ''.zip'' \<longrightarrow>
          (\<exists>man. resolveManifest w repo tag (blueprintID a) = Return man \<and>
             assetEntry w repo tag a =
               Return (Some (buildEntry repo (blueprintID a) a
                 (applyFallbacks man (blueprintID a) tag))) \<and>
             man_Name (applyFallbacks man (blueprintID a) tag)
               \<in> Name ` set (elems (Blueprints db')))))) \<and>
   (\<forall>rb. env_TAG w \<noteq> [] \<and> env_BLUEPRINTS_REPO w \<noteq> [] \<and>
      snd (loadDB w ''registry.json'') = None \<and>
      httpGet w (releaseURL (env_BLUEPRINTS_REPO w) (env_TAG w)) = Return (Inr rb) \<and>
      fst (json_Unmarshal_ghRelease w rb zero_ghRelease) = None \<and>
      (\<forall>a \<in> set (elems (Assets (snd (json_Unmarshal_ghRelease w rb zero_ghRelease)))).
           strings_HasSuffix (asset_Name a) ''.zip'' \<longrightarrow>
           url_parses w (manifestURL (env_BLUEPRINTS_REPO w) (env_TAG w) (blueprintID a))) \<and>
      (\<forall>doc. os_WriteFile w ''registry.json'' doc = None) \<longrightarrow>
      (\<exists>saved. main w = Return (Inr saved)))"
proof (intro conjI)
  show "\<forall>err. httpGet w (manifestURL repo tag name) = Return (Inl err) \<longrightarrow>
      resolveManifest w repo tag name = Return zero_bpManifest"
    by (simp add: resolveManifest_def)
  show "\<forall>mb. httpGet w (manifestURL repo tag name) = Return (Inr mb) \<longrightarrow>
      resolveManifest w repo tag name = Return (snd (yaml_Unmarshal w mb zero_bpManifest))"
    by (simp add: resolveManifest_def)
  show "url_parses w (manifestURL repo tag name) \<longrightarrow>
      (\<exists>man. resolveManifest w repo tag name = Return man)"
    using resolveManifest_Return by blast
  show "(\<forall>a \<in> set assets. strings_HasSuffix (asset_Name a) ''.zip'' \<longrightarrow>
        url_parses w (manifestURL repo tag (blueprintID a))) \<longrightarrow>
    (\<exists>db'. reconcile w repo tag db assets = Return db' \<and>
       (\<forall>a \<in> set assets. strings_HasSuffix (asset_Name a) ''.zip'' \<longrightarrow>
          (\<exists>man. resolveManifest w repo tag (blueprintID a) = Return man \<and>
             assetEntry w repo tag a =
               Return (Some (buildEntry repo (blueprintID a) a
                 (applyFallbacks man (blueprintID a) tag))) \<and>
             man_Name (applyFallbacks man (blueprintID a) tag)
               \<in> Name ` set (elems (Blueprints db')))))"
  proof
    assume u: "\<forall>a \<in> set assets. strings_HasSuffix (asset_Name a) ''.zip'' \<longrightarrow>
        url_parses w (manifestURL repo tag (blueprintID a))"
    then obtain db' where r: "reconcile w repo tag db assets = Return db'"
      using reconcile_Return by blast
    have "\<exists>man. resolveManifest w repo tag (blueprintID a) = Return man \<and>
             assetEntry w repo tag a =
               Return (Some (buildEntry repo (blueprintID a) a
                 (applyFallbacks man (blueprintID a) tag))) \<and>
             man_Name (applyFallbacks man (blueprintID a) tag)
               \<in> Name ` set (elems (Blueprints db'))"
      if a: "a \<in> set assets" and z: "strings_HasSuffix (asset_Name a) ''.zip''" for a
    proof -
      from u a z obtain man where m: "resolveManifest w repo tag (blueprintID a) = Return man"
        using resolveManifest_Return by blast
      let ?e = "buildEntry repo (blueprintID a) a (applyFallbacks man (blueprintID a) tag)"
      from z m have e: "assetEntry w repo tag a = Return (Some ?e)" by (rule assetEntry_zip)
      from r a e have "Name ?e \<in> Name ` set (elems (Blueprints db'))"
        by (rule reconcile_has_entry)
      then have "man_Name (applyFallbacks man (blueprintID a) tag)
               \<in> Name ` set (elems (Blueprints db'))"
        by (simp add: buildEntry_def)
      with m e show ?thesis by blast
    qed
    with r show "\<exists>db'. reconcile w repo tag db assets = Return db' \<and>
       (\<forall>a \<in> set assets. strings_HasSuffix (asset_Name a) ''.zip'' \<longrightarrow>
          (\<exists>man. resolveManifest w repo tag (blueprintID a) = Return man \<and>
             assetEntry w repo tag a =
               Return (Some (buildEntry repo (blueprintID a) a
                 (applyFallbacks man (blueprintID a) tag))) \<and>
             man_Name (applyFallbacks man (blueprintID a) tag)
               \<in> Name ` set (elems (Blueprints db'))))"
      by blast
  qed
  show "\<forall>rb. env_TAG w \<noteq> [] \<and> env_BLUEPRINTS_REPO w \<noteq> [] \<and>
      snd (loadDB w ''registry.json'') = None \<and>
      httpGet w (releaseURL (env_BLUEPRINTS_REPO w) (env_TAG w)) = Return (Inr rb) \<and>
      fst (json_Unmarshal_ghRelease w rb zero_ghRelease) = None \<and>
      (\<forall>a \<in> set (elems (Assets (snd (json_Unmarshal_ghRelease w rb zero_ghRelease)))).
           strings_HasSuffix (asset_Name a) ''.zip'' \<longrightarrow>
           url_parses w (manifestURL (env_BLUEPRINTS_REPO w) (env_TAG w) (blueprintID a))) \<and>
      (\<forall>doc. os_WriteFile w ''registry.json'' doc = None) \<longrightarrow>
      (\<exists>saved. main w = Return (Inr saved))"
    using main_succeeds [of w] by blast
qed

theorem manifest_failure_not_fatal_witness:
  "httpGet sample_world (manifestURL ''o/r'' ''v1.2.3'' ''foo'') =
     Return (Inl (ErrStatus
       ''https://raw.githubusercontent.com/o/r/v1.2.3/blueprints/foo/manifest.yaml/''
       404 ''Not Found'')) \<and>
   resolveManifest sample_world ''o/r'' ''v1.2.3'' ''foo'' = Return zero_bpManifest \<and>
   resolveManifest typeerr_world ''o/r'' ''v1.2.3'' ''foo'' =
     Return \<lparr>man_Name = ''bar'', man_Version = [], man_Description = [], man_Tags = NilSlice\<rparr> \<and>
   (\<exists>db'. reconcile sample_world ''o/r'' ''v1.2.3'' \<lparr>Blueprints = Slice []\<rparr> sample_assets =
        Return db' \<and>
      assetEntry sample_world ''o/r'' ''v1.2.3'' (hd sample_assets) =
        Return (Some \<lparr>Name = ''foo'', Version = ''1.2.3'', Repo = ''github.com/o/r'',
            Path = ''blueprints/foo'', DownloadURL = ''U1'',
            Description = ''foo blueprint'', Tags = NilSlice\<rparr>) \<and>
      ''foo'' \<in> Name ` set (elems (Blueprints db'))) \<and>
   (\<exists>saved. main sample_world = Return (Inr saved))"
proof -
  let ?db = "\<lparr>Blueprints = Slice []\<rparr>"
  note t = manifest_failure_not_fatal
    [of sample_world "''o/r''" "''v1.2.3''" "''foo''" sample_assets ?db]
  note u = manifest_failure_not_fatal
    [of typeerr_world "''o/r''" "''v1.2.3''" "''foo''" sample_assets ?db]
  have g: "httpGet sample_world (manifestURL ''o/r'' ''v1.2.3'' ''foo'') =
     Return (Inl (ErrStatus
       ''https://raw.githubusercontent.com/o/r/v1.2.3/blueprints/foo/manifest.yaml/''
       404 ''Not Found''))"
    by (simp add: sample_world_def eval_defs)
  have g': "httpGet typeerr_world (manifestURL ''o/r'' ''v1.2.3'' ''foo'') =
     Return (Inr ''{name: bar, tags: 7}'')"
    by (simp add: typeerr_world_def sample_world_def httpGet_def)
  have z: "resolveManifest sample_world ''o/r'' ''v1.2.3'' ''foo'' = Return zero_bpManifest"
    using t g by blast
  have p: "resolveManifest typeerr_world ''o/r'' ''v1.2.3'' ''foo'' =
     Return \<lparr>man_Name = ''bar'', man_Version = [], man_Description = [], man_Tags = NilSlice\<rparr>"
    using u g' by (simp add: typeerr_world_def sample_world_def zero_bpManifest_def)
  have h: "hd sample_assets \<in> set sample_assets"
    "strings_HasSuffix (asset_Name (hd sample_assets)) ''.zip''"
    "blueprintID (hd sample_assets) = ''foo''"
    by (simp_all add: sample_assets_def strings_HasSuffix_def blueprintID_def strings_TrimSuffix_def)
  have ok: "\<forall>a \<in> set sample_assets. strings_HasSuffix (asset_Name a) ''.zip'' \<longrightarrow>
        url_parses sample_world (manifestURL ''o/r'' ''v1.2.3'' (blueprintID a))"
    by (simp add: sample_world_def)
  with t obtain db' where
    r: "reconcile sample_world ''o/r'' ''v1.2.3'' ?db sample_assets = Return db'" and
    a: "\<forall>a \<in> set sample_assets. strings_HasSuffix (asset_Name a) ''.zip'' \<longrightarrow>
          (\<exists>man. resolveManifest sample_world ''o/r'' ''v1.2.3'' (blueprintID a) = Return man \<and>
             assetEntry sample_world ''o/r'' ''v1.2.3'' a =
               Return (Some (buildEntry ''o/r'' (blueprintID a) a
                 (applyFallbacks man (blueprintID a) ''v1.2.3''))) \<and>
             man_Name (applyFallbacks man (blueprintID a) ''v1.2.3'')
               \<in> Name ` set (elems (Blueprints db')))"
    by blast
  from a h(1,2) obtain man where
    m: "resolveManifest sample_world ''o/r'' ''v1.2.3'' (blueprintID (hd sample_assets)) = Return man"
    and e: "assetEntry sample_world ''o/r'' ''v1.2.3'' (hd sample_assets) =
               Return (Some (buildEntry ''o/r'' (blueprintID (hd sample_assets)) (hd sample_assets)
                 (applyFallbacks man (blueprintID (hd sample_assets)) ''v1.2.3'')))"
    and n: "man_Name (applyFallbacks man (blueprintID (hd sample_assets)) ''v1.2.3'')
               \<in> Name ` set (elems (Blueprints db'))"
    by blast
  from m z h(3) have man: "man = zero_bpManifest" by simp
  have f: "applyFallbacks zero_bpManifest ''foo'' ''v1.2.3'' =
     \<lparr>man_Name = ''foo'', man_Version = ''1.2.3'', man_Description = ''foo blueprint'',
      man_Tags = NilSlice\<rparr>"
    by (simp add: applyFallbacks_def zero_bpManifest_def strings_TrimPrefix_def
        strings_HasPrefix_def Let_def)
  have e': "assetEntry sample_world ''o/r'' ''v1.2.3'' (hd sample_assets) =
        Return (Some \<lparr>Name = ''foo'', Version = ''1.2.3'', Repo = ''github.com/o/r'',
            Path = ''blueprints/foo'', DownloadURL = ''U1'',
            Description = ''foo blueprint'', Tags = NilSlice\<rparr>)"
    unfolding e man h(3) f
    by (simp add: sample_assets_def buildEntry_def path_Join_def path_Clean_def clean_step_def)
  from n have n': "''foo'' \<in> Name ` set (elems (Blueprints db'))"
    unfolding man h(3) f by simp
  have m: "\<exists>saved. main sample_world = Return (Inr saved)"
  proof -
    have "env_TAG sample_world \<noteq> [] \<and> env_BLUEPRINTS_REPO sample_world \<noteq> [] \<and>
      snd (loadDB sample_world ''registry.json'') = None \<and>
      httpGet sample_world (releaseURL (env_BLUEPRINTS_REPO sample_world) (env_TAG sample_world)) =
        Return (Inr ''{}'') \<and>
      fst (json_Unmarshal_ghRelease sample_world ''{}'' zero_ghRelease) = None \<and>
      (\<forall>a \<in> set (elems (Assets (snd (json_Unmarshal_ghRelease sample_world ''{}'' zero_ghRelease)))).
           strings_HasSuffix (asset_Name a) ''.zip'' \<longrightarrow>
           url_parses sample_world
             (manifestURL (env_BLUEPRINTS_REPO sample_world) (env_TAG sample_world) (blueprintID a))) \<and>
      (\<forall>doc. os_WriteFile sample_world ''registry.json'' doc = None)"
      by (simp add: sample_world_def loadDB_def httpGet_def)
    with t show ?thesis by blast
  qed
  from g z p r e' n' m show ?thesis by blast
qed

text \<open>
  C6. From the empty manifest, tag \<^verbatim>\<open>v1.2.3\<close> and blueprint identifier \<^verbatim>\<open>foo\<close>, the
  entry has name \<^verbatim>\<open>foo\<close>, version \<^verbatim>\<open>1.2.3\<close>, description \<^verbatim>\<open>foo blueprint\<close> and no
  tags. For any manifest, a fallback replaces a field exactly when the manifest left it
  empty; tags have no fallback; only one leading \<^verbatim>\<open>v\<close> is stripped from the tag.
\<close>

theorem fallback_derivation:
  "buildEntry repo ''foo'' a (applyFallbacks zero_bpManifest ''foo'' ''v1.2.3'') =
     \<lparr>Name = ''foo'', Version = ''1.2.3'', Repo = ''github.com/'' @ repo,
      Path = ''blueprints/foo'', DownloadURL = BrowserDownloadURL a,
      Description = ''foo blueprint'', Tags = NilSlice\<rparr> \<and>
   elems (Tags (buildEntry repo ''foo'' a (applyFallbacks zero_bpManifest ''foo'' ''v1.2.3''))) = [] \<and>
   applyFallbacks man name tag =
     \<lparr>man_Name = (if man_Name man = [] then name else man_Name man),
      man_Version = (if man_Version man = [] then strings_TrimPrefix tag ''v'' else man_Version man),
      man_Description =
        (if man_Description man = [] then name @ '' blueprint'' else man_Description man),
      man_Tags = man_Tags man\<rparr> \<and>
   strings_TrimPrefix ''vv1'' ''v'' = ''v1''"
  by (simp add: buildEntry_def applyFallbacks_def zero_bpManifest_def Let_def
      strings_TrimPrefix_def strings_HasPrefix_def path_Join_def path_Clean_def clean_step_def)

theorem fallback_derivation_witness:
  "applyFallbacks \<lparr>man_Name = ''bar'', man_Version = [], man_Description = ''A bar'',
                    man_Tags = Slice [''x'']\<rparr> ''foo'' ''v1.2.3'' =
     \<lparr>man_Name = ''bar'', man_Version = ''1.2.3'', man_Description = ''A bar'',
      man_Tags = Slice [''x'']\<rparr>"
  using fallback_derivation
    [of "[]" "\<lparr>asset_Name = ''foo.zip'', BrowserDownloadURL = ''U1''\<rparr>"
        "\<lparr>man_Name = ''bar'', man_Version = [], man_Description = ''A bar'',
          man_Tags = Slice [''x'']\<rparr>" "''foo''" "''v1.2.3''"]
  by (simp add: strings_TrimPrefix_def strings_HasPrefix_def)

text \<open>
  What the loop body does with one asset whenever the iteration returns: it skips the
  asset exactly when the name does not end in \<^verbatim>\<open>.zip\<close>; an entry comes only from a name
  that ends in \<^verbatim>\<open>.zip\<close>, with the identifier that followed by \<^verbatim>\<open>.zip\<close> is the name; and
  when the manifest URL parses, the entry is upserted into the catalog.
\<close>

lemma asset_filter_returning:
  "(assetEntry w repo tag a = Return None) = (\<not> strings_HasSuffix (asset_Name a) ''.zip'') \<and>
   (\<forall>e. assetEntry w repo tag a = Return (Some e) \<longrightarrow>
      strings_HasSuffix (asset_Name a) ''.zip'' \<and>
      Path e = path_Join [''blueprints'', blueprintID a] \<and>
      DownloadURL e = BrowserDownloadURL a) \<and>
   (strings_HasSuffix (asset_Name a) ''.zip'' \<and>
      url_parses w (manifestURL repo tag (blueprintID a)) \<longrightarrow>
      (\<exists>e. assetEntry w repo tag a = Return (Some e) \<and>
           processAsset w repo tag db a =
             Return (db\<lparr>Blueprints := Slice (upsert (elems (Blueprints db)) e)\<rparr>))) \<and>
   (\<not> strings_HasSuffix (asset_Name a) ''.zip'' \<longrightarrow> processAsset w repo tag db a = Return db) \<and>
   (strings_HasSuffix (asset_Name a) ''.zip'' \<longrightarrow> blueprintID a @ ''.zip'' = asset_Name a) \<and>
   blueprintID \<lparr>asset_Name = ''foo.zip'', BrowserDownloadURL = u\<rparr> = ''foo'' \<and>
   assetEntry w repo tag \<lparr>asset_Name = ''foo.tar'', BrowserDownloadURL = u\<rparr> = Return None"
proof (intro conjI allI impI)
  show "(assetEntry w repo tag a = Return None) = (\<not> strings_HasSuffix (asset_Name a) ''.zip'')"
    by (rule assetEntry_skip_iff)
  show "strings_HasSuffix (asset_Name a) ''.zip''"
    and "Path e = path_Join [''blueprints'', blueprintID a]"
    and "DownloadURL e = BrowserDownloadURL a" if "assetEntry w repo tag a = Return (Some e)" for e
    using that
    by (auto simp: assetEntry_def Let_def buildEntry_def split: if_splits outcome.splits)
  show "\<exists>e. assetEntry w repo tag a = Return (Some e) \<and>
           processAsset w repo tag db a =
             Return (db\<lparr>Blueprints := Slice (upsert (elems (Blueprints db)) e)\<rparr>)"
    if "strings_HasSuffix (asset_Name a) ''.zip'' \<and>
      url_parses w (manifestURL repo tag (blueprintID a))"
  proof -
    from that obtain man where "resolveManifest w repo tag (blueprintID a) = Return man"
      using resolveManifest_Return by blast
    with that show ?thesis by (simp add: assetEntry_zip processAsset_def)
  qed
  show "processAsset w repo tag db a = Return db" if "\<not> strings_HasSuffix (asset_Name a) ''.zip''"
    using that by (simp add: processAsset_def assetEntry_not_zip)
  show "blueprintID a @ ''.zip'' = asset_Name a" if "strings_HasSuffix (asset_Name a) ''.zip''"
    using that unfolding blueprintID_def by (rule trim_zip)
  show "blueprintID \<lparr>asset_Name = ''foo.zip'', BrowserDownloadURL = u\<rparr> = ''foo''"
    by (simp add: blueprintID_def strings_TrimSuffix_def strings_HasSuffix_def)
  show "assetEntry w repo tag \<lparr>asset_Name = ''foo.tar'', BrowserDownloadURL = u\<rparr> = Return None"
    by (simp add: assetEntry_def strings_HasSuffix_def)
qed

text \<open>
  C7 says that every asset of the list whose name ends in \<^verbatim>\<open>.zip\<close> gives an entry. The
  asset \<^verbatim>\<open>a%zz.zip\<close> ends in \<^verbatim>\<open>.zip\<close> and its identifier is \<^verbatim>\<open>a%zz\<close>, but the manifest
  URL built from it has the invalid escape \<^verbatim>\<open>%zz\<close>: \<^verbatim>\<open>httpGet\<close> drops the error of
  \<^verbatim>\<open>http.NewRequestWithContext\<close> and sets a header on the nil request. The iteration
  panics, no entry is produced, and the run ends before anything is saved.
\<close>

theorem zip_asset_panics_on_unparsable_url:
  "strings_HasSuffix (asset_Name escape_asset) ''.zip'' \<and>
   blueprintID escape_asset = ''a%zz'' \<and>
   manifestURL ''o/r'' ''v1.2.3'' (blueprintID escape_asset) =
     ''https://raw.githubusercontent.com/o/r/v1.2.3/blueprints/a%zz/manifest.yaml/'' \<and>
   \<not> url_parses escape_world (manifestURL ''o/r'' ''v1.2.3'' (blueprintID escape_asset)) \<and>
   assetEntry escape_world ''o/r'' ''v1.2.3'' escape_asset = Panic \<and>
   processAsset escape_world ''o/r'' ''v1.2.3'' \<lparr>Blueprints = Slice []\<rparr> escape_asset = Panic \<and>
   main escape_world = Panic"
proof -
  have z: "strings_HasSuffix (asset_Name escape_asset) ''.zip''"
    by (simp add: escape_asset_def strings_HasSuffix_def)
  have i: "blueprintID escape_asset = ''a%zz''"
    by (simp add: escape_asset_def blueprintID_def strings_TrimSuffix_def strings_HasSuffix_def)
  have u: "manifestURL ''o/r'' ''v1.2.3'' ''a%zz'' =
     ''https://raw.githubusercontent.com/o/r/v1.2.3/blueprints/a%zz/manifest.yaml/''"
    by (simp add: manifestURL_def path_Join_def path_Clean_def clean_step_def)
  have n: "\<not> url_parses escape_world (manifestURL ''o/r'' ''v1.2.3'' ''a%zz'')"
    unfolding u by (simp add: escape_world_def)
  then have r: "resolveManifest escape_world ''o/r'' ''v1.2.3'' ''a%zz'' = Panic"
    by (simp add: resolveManifest_Panic)
  with z i have e: "assetEntry escape_world ''o/r'' ''v1.2.3'' escape_asset = Panic"
    by (simp add: assetEntry_def Let_def)
  then have p: "processAsset escape_world ''o/r'' ''v1.2.3'' db escape_asset = Panic" for db
    by (simp add: processAsset_def)
  have g: "httpGet escape_world (releaseURL ''o/r'' ''v1.2.3'') = Return (Inr ''{}'')"
    by (simp add: escape_world_def sample_world_def httpGet_def releaseURL_def)
  have m: "main escape_world = Panic"
    using g p by (simp add: main_def Let_def loadDB_def escape_world_def sample_world_def)
  from z i u n e p m show ?thesis by simp
qed

text \<open>
  C8 says that the repository-relative part of the manifest URL is exactly
  \<^verbatim>\<open>blueprints/<blueprintID>/manifest.yaml\<close>, with no trailing separator. The URL the code
  builds for repository \<^verbatim>\<open>o/r\<close>, tag \<^verbatim>\<open>v1.2.3\<close> and identifier \<^verbatim>\<open>foo\<close> ends in
  \<^verbatim>\<open>manifest.yaml/\<close>: the format string has a fourth verb, filled with the empty string,
  after a slash. Every URL it builds ends in a slash. (For the identifier \<^verbatim>\<open>..\<close>,
  \<^verbatim>\<open>path.Join\<close> also removes the \<^verbatim>\<open>blueprints\<close> segment.)
\<close>

theorem manifest_url_trailing_slash:
  "manifestURL ''o/r'' ''v1.2.3'' ''foo'' =
     ''https://raw.githubusercontent.com/o/r/v1.2.3/blueprints/foo/manifest.yaml/'' \<and>
   last (manifestURL repo tag name) = CHR ''/'' \<and>
   manifestURL ''o/r'' ''v1.2.3'' ''..'' =
     ''https://raw.githubusercontent.com/o/r/v1.2.3/manifest.yaml/''"
  by (simp add: manifestURL_def path_Join_def path_Clean_def clean_step_def)

text \<open>
  C9. \<^verbatim>\<open>loadDB\<close> returns the empty catalog and no error when the file does not exist;
  when the file is read and its decoding fails it returns that decode error, and \<^verbatim>\<open>main\<close>
  ends with it without using a catalog; when the decoding succeeds it returns the decoded
  entries and no error, and the entry collection is not nil.
\<close>

theorem loadDB_contract:
  "(os_ReadFile w p = Inl ErrNotExist \<longrightarrow> loadDB w p = (\<lparr>Blueprints = Slice []\<rparr>, None)) \<and>
   (\<forall>b err db. os_ReadFile w p = Inr b \<and>
        json_Unmarshal_Database w b zero_Database = (Some err, db) \<longrightarrow>
      snd (loadDB w p) = Some (DecodeError err)) \<and>
   (\<forall>b err db. env_TAG w \<noteq> [] \<and> env_BLUEPRINTS_REPO w \<noteq> [] \<and>
        os_ReadFile w ''registry.json'' = Inr b \<and>
        json_Unmarshal_Database w b zero_Database = (Some err, db) \<longrightarrow>
      main w = Return (Inl (LoadRegistry (DecodeError err)))) \<and>
   (\<forall>b db. os_ReadFile w p = Inr b \<and>
        json_Unmarshal_Database w b zero_Database = (None, db) \<longrightarrow>
      snd (loadDB w p) = None \<and>
      elems (Blueprints (fst (loadDB w p))) = elems (Blueprints db) \<and>
      Blueprints (fst (loadDB w p)) \<noteq> NilSlice)"
  by (auto simp: loadDB_def main_def Let_def)

theorem loadDB_contract_witness:
  "loadDB sample_world ''registry.json'' = (\<lparr>Blueprints = Slice []\<rparr>, None) \<and>
   snd (loadDB (sample_world\<lparr>os_ReadFile := (\<lambda>p. Inr ''{'' ),
          json_Unmarshal_Database := (\<lambda>b db. (Some JsonSyntaxError, db))\<rparr>) ''registry.json'') =
     Some (DecodeError JsonSyntaxError) \<and>
   main (sample_world\<lparr>os_ReadFile := (\<lambda>p. Inr ''{'' ),
          json_Unmarshal_Database := (\<lambda>b db. (Some JsonSyntaxError, db))\<rparr>) =
     Return (Inl (LoadRegistry (DecodeError JsonSyntaxError))) \<and>
   loadDB (sample_world\<lparr>os_ReadFile := (\<lambda>p. Inr ''{}'')\<rparr>) ''registry.json'' =
     (\<lparr>Blueprints = Slice []\<rparr>, None)"
proof -
  let ?bad = "sample_world\<lparr>os_ReadFile := (\<lambda>p. Inr ''{'' ),
          json_Unmarshal_Database := (\<lambda>b db. (Some JsonSyntaxError, db))\<rparr>"
  let ?good = "sample_world\<lparr>os_ReadFile := (\<lambda>p. Inr ''{}'')\<rparr>"
  have 1: "loadDB sample_world ''registry.json'' = (\<lparr>Blueprints = Slice []\<rparr>, None)"
    using loadDB_contract [of sample_world "''registry.json''"]
    by (simp add: sample_world_def)
  have b: "env_TAG ?bad \<noteq> [] \<and> env_BLUEPRINTS_REPO ?bad \<noteq> [] \<and>
      os_ReadFile ?bad ''registry.json'' = Inr ''{'' \<and>
      json_Unmarshal_Database ?bad ''{'' zero_Database = (Some JsonSyntaxError, zero_Database)"
    by (simp add: sample_world_def)
  from b loadDB_contract [of ?bad "''registry.json''"]
  have 2: "snd (loadDB ?bad ''registry.json'') = Some (DecodeError JsonSyntaxError)"
    by blast
  from b loadDB_contract [of ?bad "''registry.json''"]
  have 3: "main ?bad = Return (Inl (LoadRegistry (DecodeError JsonSyntaxError)))"
    by blast
  have g: "os_ReadFile ?good ''registry.json'' = Inr ''{}'' \<and>
      json_Unmarshal_Database ?good ''{}'' zero_Database = (None, zero_Database)"
    by (simp add: sample_world_def)
  from g loadDB_contract [of ?good "''registry.json''"]
  have "snd (loadDB ?good ''registry.json'') = None \<and>
      elems (Blueprints (fst (loadDB ?good ''registry.json''))) = elems (Blueprints zero_Database) \<and>
      Blueprints (fst (loadDB ?good ''registry.json'')) \<noteq> NilSlice"
    by blast
  then have 4: "loadDB ?good ''registry.json'' = (\<lparr>Blueprints = Slice []\<rparr>, None)"
    by (cases "loadDB ?good ''registry.json''"; cases "Blueprints (fst (loadDB ?good ''registry.json''))")
       (auto simp: zero_Database_def)
  from 1 2 3 4 show ?thesis by blast
qed

lemma json_String_invalid_byte:
  "json_String [CHR 0xFF] = JString [CHR 0xEF, CHR 0xBF, CHR 0xBD] \<and>
   json_String [CHR 0xC3, CHR 0xA9] = JString [CHR 0xC3, CHR 0xA9] \<and>
   json_String ''1.2.3'' = JString ''1.2.3''"
  by (simp add: json_String_def json_valid_utf8_def is_cont_def)

text \<open>
  C10. The tags of an entry are the tags of the resolved manifest, unchanged. When the
  manifest supplies none, the entry's tags are nil and its JSON object has the member
  \<^verbatim>\<open>"tags": null\<close>. \<^verbatim>\<open>saveDB\<close> writes the object whose member \<^verbatim>\<open>blueprints\<close> is always
  an array, of the entries encoded one by one: only the top-level collection is
  normalised.
\<close>

theorem tags_verbatim_null_in_file:
  "(\<forall>e man. assetEntry w repo tag a = Return (Some e) \<and>
        resolveManifest w repo tag (blueprintID a) = Return man \<longrightarrow>
      Tags e = man_Tags man) \<and>
   (\<forall>e man. assetEntry w repo tag a = Return (Some e) \<and>
        resolveManifest w repo tag (blueprintID a) = Return man \<and>
        man_Tags man = NilSlice \<longrightarrow>
      Tags e = NilSlice \<and>
      json_Blueprint e =
        JObject [(''name'', json_String (Name e)), (''version'', json_String (Version e)),
                 (''repo'', json_String (Repo e)), (''path'', json_String (Path e)),
                 (''download_url'', json_String (DownloadURL e)),
                 (''description'', json_String (Description e)),
                 (''tags'', JNull)]) \<and>
   saveDB w p db =
     os_WriteFile w p
       (JObject [(''blueprints'', JArray (map json_Blueprint (elems (Blueprints db))))])"
proof (intro conjI allI impI)
  fix e man assume "assetEntry w repo tag a = Return (Some e) \<and>
        resolveManifest w repo tag (blueprintID a) = Return man"
  then show "Tags e = man_Tags man"
    by (auto simp: assetEntry_def Let_def buildEntry_def applyFallbacks_def split: if_splits)
next
  fix e man assume h: "assetEntry w repo tag a = Return (Some e) \<and>
        resolveManifest w repo tag (blueprintID a) = Return man \<and>
        man_Tags man = NilSlice"
  then show t: "Tags e = NilSlice"
    by (auto simp: assetEntry_def Let_def buildEntry_def applyFallbacks_def split: if_splits)
  then show "json_Blueprint e =
        JObject [(''name'', json_String (Name e)), (''version'', json_String (Version e)),
                 (''repo'', json_String (Repo e)), (''path'', json_String (Path e)),
                 (''download_url'', json_String (DownloadURL e)),
                 (''description'', json_String (Description e)),
                 (''tags'', JNull)]"
    by (simp add: json_Blueprint_def)
next
  show "saveDB w p db =
     os_WriteFile w p
       (JObject [(''blueprints'', JArray (map json_Blueprint (elems (Blueprints db))))])"
    by (cases "Blueprints db") (simp_all add: saveDB_def Let_def json_Marshal_Database_def)
qed

theorem tags_verbatim_null_in_file_witness:
  "assetEntry sample_world ''o/r'' ''v1.2.3'' (hd sample_assets) =
     Return (Some \<lparr>Name = ''foo'', Version = ''1.2.3'', Repo = ''github.com/o/r'',
            Path = ''blueprints/foo'', DownloadURL = ''U1'',
            Description = ''foo blueprint'', Tags = NilSlice\<rparr>) \<and>
   json_Blueprint \<lparr>Name = ''foo'', Version = ''1.2.3'', Repo = ''github.com/o/r'',
            Path = ''blueprints/foo'', DownloadURL = ''U1'',
            Description = ''foo blueprint'', Tags = NilSlice\<rparr> =
     JObject [(''name'', JString ''foo''), (''version'', JString ''1.2.3''),
                 (''repo'', JString ''github.com/o/r''), (''path'', JString ''blueprints/foo''),
                 (''download_url'', JString ''U1''),
                 (''description'', JString ''foo blueprint''),
                 (''tags'', JNull)] \<and>
   saveDB (sample_world\<lparr>os_WriteFile :=
        (\<lambda>p doc. if doc = foo_document then None else Some ErrIO)\<rparr>)
     ''registry.json''
     \<lparr>Blueprints = Slice [\<lparr>Name = ''foo'', Version = ''1.2.3'', Repo = ''github.com/o/r'',
            Path = ''blueprints/foo'', DownloadURL = ''U1'',
            Description = ''foo blueprint'', Tags = NilSlice\<rparr>]\<rparr> = None \<and>
   saveDB (sample_world\<lparr>os_WriteFile :=
        (\<lambda>p doc. if doc = JObject [(''blueprints'', JArray [])] then None else Some ErrIO)\<rparr>)
     ''registry.json'' \<lparr>Blueprints = NilSlice\<rparr> = None"
proof -
  let ?a = "hd sample_assets"
  let ?e = "\<lparr>Name = ''foo'', Version = ''1.2.3'', Repo = ''github.com/o/r'',
            Path = ''blueprints/foo'', DownloadURL = ''U1'',
            Description = ''foo blueprint'', Tags = NilSlice\<rparr>"
  let ?w = "sample_world\<lparr>os_WriteFile :=
        (\<lambda>p doc. if doc = foo_document then None else Some ErrIO)\<rparr>"
  let ?v = "sample_world\<lparr>os_WriteFile :=
        (\<lambda>p doc. if doc = JObject [(''blueprints'', JArray [])] then None else Some ErrIO)\<rparr>"
  have e: "assetEntry sample_world ''o/r'' ''v1.2.3'' ?a = Return (Some ?e)"
    by (simp add: sample_world_def sample_assets_def eval_defs)
  have m: "resolveManifest sample_world ''o/r'' ''v1.2.3'' (blueprintID ?a) = Return zero_bpManifest"
    "man_Tags zero_bpManifest = NilSlice"
    by (simp_all add: sample_world_def sample_assets_def eval_defs)
  note t = tags_verbatim_null_in_file
    [where w = sample_world and repo = "''o/r''" and tag = "''v1.2.3''" and a = ?a]
  from t e m have "Tags ?e = NilSlice \<and>
      json_Blueprint ?e =
        JObject [(''name'', json_String (Name ?e)), (''version'', json_String (Version ?e)),
                 (''repo'', json_String (Repo ?e)), (''path'', json_String (Path ?e)),
                 (''download_url'', json_String (DownloadURL ?e)),
                 (''description'', json_String (Description ?e)),
                 (''tags'', JNull)]"
    by blast
  then have 1: "json_Blueprint ?e =
     JObject [(''name'', JString ''foo''), (''version'', JString ''1.2.3''),
                 (''repo'', JString ''github.com/o/r''), (''path'', JString ''blueprints/foo''),
                 (''download_url'', JString ''U1''),
                 (''description'', JString ''foo blueprint''),
                 (''tags'', JNull)]"
    by (simp add: json_String_def json_valid_utf8_def)
  from tags_verbatim_null_in_file
    [where w = ?w and p = "''registry.json''" and db = "\<lparr>Blueprints = Slice [?e]\<rparr>"]
  have "saveDB ?w ''registry.json'' \<lparr>Blueprints = Slice [?e]\<rparr> =
     os_WriteFile ?w ''registry.json''
       (JObject [(''blueprints'', JArray (map json_Blueprint (elems (Blueprints \<lparr>Blueprints = Slice [?e]\<rparr>))))])"
    by blast
  then have 2: "saveDB ?w ''registry.json'' \<lparr>Blueprints = Slice [?e]\<rparr> = None"
    by (simp add: foo_document_def 1)
  have 3: "saveDB ?v ''registry.json'' \<lparr>Blueprints = NilSlice\<rparr> = None"
    using tags_verbatim_null_in_file
      [where w = ?v and p = "''registry.json''" and db = "\<lparr>Blueprints = NilSlice\<rparr>"]
    by simp
  from e 1 2 3 show ?thesis by blast
qed

end
